theory Spec2Isabelle
  imports Main "HOL-Library.Multiset"
begin

section \<open>Settings\<close>

text \<open>
  \<^verbatim>\<open>SECRET_PASSWORD = os.getenv("SECRET_PASSWORD", "12345")\<close>: the argument is the value of
  the environment variable, \<open>None\<close> when it is not set. The handlers below take the
  resulting secret as their first argument.
\<close>

definition SECRET_PASSWORD :: "string option \<Rightarrow> string" where
  "SECRET_PASSWORD env = (case env of None \<Rightarrow> ''12345'' | Some v \<Rightarrow> v)"

section \<open>The notes table\<close>

text \<open>
  One row of the table \<open>notes\<close>, as \<open>NoteResponse\<close> carries it. The column \<open>id\<close> is
  the field \<open>id_col\<close> (\<open>id\<close> is taken in HOL). \<open>created_at\<close> is filled by \<open>CURRENT_TIMESTAMP\<close>, a text
  \<open>YYYY-MM-DD HH:MM:SS\<close>; it is represented by the number of seconds it denotes, whose
  order is the order of the fixed-width texts that \<open>ORDER BY\<close> compares. The two
  nullable columns are options. Strings are byte lists (UTF-8).
\<close>

record NoteResponse =
  id_col :: int
  question :: string
  created_at :: int
  color :: string
  telegram_user_id :: "int option"
  telegram_username :: "string option"

text \<open>
  The database file: the rows of \<open>notes\<close> in the order of a table scan (ascending
  rowid), and the counter that \<open>AUTOINCREMENT\<close> keeps in \<open>sqlite_sequence\<close>, the
  largest rowid the table has ever held.
\<close>

record database =
  notes_table :: "NoteResponse list"
  sqlite_sequence :: int

text \<open>
  \<open>init_db\<close> runs \<open>CREATE TABLE IF NOT EXISTS\<close>: a missing table (\<open>None\<close>) is created
  empty, an existing one is left as it is.
\<close>

definition init_db :: "database option \<Rightarrow> database" where
  "init_db file = (case file of
       None \<Rightarrow> \<lparr>notes_table = [], sqlite_sequence = 0\<rparr>
     | Some d \<Rightarrow> d)"

text \<open>
  \<open>get_db\<close> opens the connection. The argument \<open>fault\<close> is the exception of the
  \<open>sqlite3\<close> layer, if it raises one (its \<open>str(e)\<close>); every handler catches it with
  \<open>except Exception\<close>. A fault is modelled at the opening of the connection only, so
  a faulting request leaves the table as it was.
\<close>

type_synonym fault = "string option"

definition get_db :: "fault \<Rightarrow> database \<Rightarrow> string + database" where
  "get_db fault d = (case fault of Some e \<Rightarrow> Inl e | None \<Rightarrow> Inr d)"

text \<open>
  \<open>cursor.execute\<close> binds its parameters before the statement runs. The \<open>sqlite3\<close>
  module binds a Python \<open>int\<close> as a signed 64-bit \<open>INTEGER\<close>; for an \<open>int\<close> outside
  that range it raises \<open>OverflowError\<close> with the text below, and the statement does not
  run. \<open>None\<close> binds as \<open>NULL\<close>.
\<close>

definition sqlite_int :: "int \<Rightarrow> bool" where
  "sqlite_int i = (- (2 ^ 63) \<le> i \<and> i < 2 ^ 63)"

definition sqlite_int_opt :: "int option \<Rightarrow> bool" where
  "sqlite_int_opt v = (case v of None \<Rightarrow> True | Some i \<Rightarrow> sqlite_int i)"

definition overflow_text :: string where
  "overflow_text = ''Python int too large to convert to SQLite INTEGER''"

definition colors :: "string list" where
  "colors = [''color-yellow'', ''color-pink'', ''color-cyan'', ''color-orange'',
             ''color-blue'', ''color-green'', ''color-lavender'', ''color-peach'']"

text \<open>
  \<open>random.choice(colors)\<close> is \<open>colors[randbelow(len(colors))]\<close>; the argument \<open>rnd\<close> is
  the generator's draw, reduced below the length of the list.
\<close>

definition get_random_color :: "nat \<Rightarrow> string" where
  "get_random_color rnd = colors ! (rnd mod length colors)"

subsection \<open>The SQL statements\<close>

text \<open>
  \<open>INSERT INTO notes (question, color, telegram_user_id, telegram_username)\<close>: the
  rowid of an \<open>AUTOINCREMENT\<close> key is one more than the largest rowid the table holds or
  has ever held; \<open>created_at\<close> takes its default, the clock \<open>now\<close>. The result is
  \<open>cursor.lastrowid\<close> and the table after \<open>commit\<close>.
\<close>

definition next_rowid :: "database \<Rightarrow> int" where
  "next_rowid d = max (sqlite_sequence d) (fold max (map id_col (notes_table d)) 0) + 1"

definition insert_note ::
  "string \<Rightarrow> string \<Rightarrow> int option \<Rightarrow> string option \<Rightarrow> int \<Rightarrow> database \<Rightarrow> int \<times> database" where
  "insert_note q c uid uname now d =
     (let lastrowid = next_rowid d in
      (lastrowid,
       \<lparr>notes_table = notes_table d @
          [\<lparr>id_col = lastrowid, question = q, created_at = now, color = c,
            telegram_user_id = uid, telegram_username = uname\<rparr>],
        sqlite_sequence = lastrowid\<rparr>))"

text \<open>\<open>SELECT * FROM notes WHERE id = ?\<close> followed by \<open>fetchone()\<close>.\<close>

definition select_by_id :: "int \<Rightarrow> database \<Rightarrow> NoteResponse option" where
  "select_by_id i d = find (\<lambda>n. id_col n = i) (notes_table d)"

text \<open>
  \<open>SELECT ... FROM notes ORDER BY created_at DESC\<close>: the sorter of SQLite is a merge sort
  that keeps rows with equal keys in the order of the scan, so the statement is a stable
  sort of the scanned rows by descending \<open>created_at\<close>.
\<close>

definition select_ordered :: "database \<Rightarrow> NoteResponse list" where
  "select_ordered d = sort_key (\<lambda>n. - created_at n) (notes_table d)"

text \<open>\<open>DELETE FROM notes WHERE id = ?\<close>; the counter of \<open>sqlite_sequence\<close> stays.\<close>

definition delete_by_id :: "int \<Rightarrow> database \<Rightarrow> database" where
  "delete_by_id i d = d\<lparr>notes_table := filter (\<lambda>n. id_col n \<noteq> i) (notes_table d)\<rparr>"

text \<open>\<open>SELECT COUNT(*) FROM notes\<close>.\<close>

definition count_notes :: "database \<Rightarrow> nat" where
  "count_notes d = length (notes_table d)"

text \<open>\<open>SELECT COUNT(DISTINCT telegram_user_id) FROM notes WHERE telegram_user_id IS NOT NULL\<close>.\<close>

definition count_users :: "database \<Rightarrow> nat" where
  "count_users d = length (remdups (List.map_filter telegram_user_id (notes_table d)))"

text \<open>\<open>SELECT created_at FROM notes ORDER BY created_at DESC LIMIT 1\<close> with \<open>fetchone()\<close>.\<close>

definition select_last :: "database \<Rightarrow> int option" where
  "select_last d = (case select_ordered d of [] \<Rightarrow> None | n # _ \<Rightarrow> Some (created_at n))"

section \<open>The HTTP endpoints\<close>

text \<open>\<open>HTTPException(status_code, detail)\<close>.\<close>

datatype http_error = HTTPException nat string

definition unauthorized :: http_error where
  "unauthorized = HTTPException 401 ''Parol talab qilinadi yoki noto'g'ri''"

text \<open>\<open>POST /api/check-password\<close>: the result is the pair \<open>(authorized, message)\<close>.\<close>

definition check_password :: "string \<Rightarrow> string \<Rightarrow> http_error + bool \<times> string" where
  "check_password secret password =
     (if password = secret then Inr (True, ''Parol to'g'ri'')
      else Inl (HTTPException 401 ''Parol noto'g'ri''))"

text \<open>
  \<open>GET /api/notes\<close>. The query parameter \<open>password\<close> defaults to \<open>None\<close>; the secret is a
  string, so \<open>None\<close> differs from it.
\<close>

definition get_notes :: "string \<Rightarrow> string option \<Rightarrow> fault \<Rightarrow> database \<Rightarrow> http_error + NoteResponse list" where
  "get_notes secret password fault d =
     (if password \<noteq> Some secret then Inl unauthorized
      else case get_db fault d of
             Inl e \<Rightarrow> Inl (HTTPException 500 e)
           | Inr conn \<Rightarrow> Inr (select_ordered conn))"

text \<open>
  \<open>POST /api/notes\<close>, with the body \<open>NoteCreate\<close>. There is no password. The
  \<open>INSERT\<close> binds \<open>note.telegram_user_id\<close>, an unbounded \<open>int\<close>: outside 64 bits the
  \<open>OverflowError\<close> is caught by \<open>except Exception\<close> and answered with status 500, and
  no row is inserted. The new row is read back by its id; \<open>dict(None)\<close> would raise
  \<open>TypeError\<close>, which the handler turns into status 500 as well.
\<close>

record NoteCreate =
  nc_question :: string
  nc_telegram_user_id :: "int option"
  nc_telegram_username :: "string option"

definition create_note ::
  "NoteCreate \<Rightarrow> fault \<Rightarrow> int \<Rightarrow> nat \<Rightarrow> database \<Rightarrow> (http_error + NoteResponse) \<times> database" where
  "create_note body fault now rnd d =
     (case get_db fault d of
        Inl e \<Rightarrow> (Inl (HTTPException 500 e), d)
      | Inr conn \<Rightarrow>
          (let color = get_random_color rnd in
           if \<not> sqlite_int_opt (nc_telegram_user_id body)
           then (Inl (HTTPException 500 overflow_text), conn)
           else
             (let (note_id, conn') = insert_note (nc_question body) color
                    (nc_telegram_user_id body) (nc_telegram_username body) now conn
              in case select_by_id note_id conn' of
                   None \<Rightarrow> (Inl (HTTPException 500 '''NoneType' object is not iterable''), conn')
                 | Some new_note \<Rightarrow> (Inr new_note, conn'))))"

text \<open>
  \<open>DELETE /api/notes/{note_id}\<close>: the result is the pair \<open>(message, id)\<close>. The
  \<open>SELECT\<close> binds \<open>note_id\<close>, an unbounded \<open>int\<close>: outside 64 bits the \<open>OverflowError\<close>
  is not an \<open>HTTPException\<close>, so the last \<open>except\<close> answers it with status 500.
\<close>

definition delete_note ::
  "string \<Rightarrow> int \<Rightarrow> string option \<Rightarrow> fault \<Rightarrow> database \<Rightarrow> (http_error + string \<times> int) \<times> database" where
  "delete_note secret note_id password fault d =
     (if password \<noteq> Some secret then (Inl unauthorized, d)
      else case get_db fault d of
             Inl e \<Rightarrow> (Inl (HTTPException 500 e), d)
           | Inr conn \<Rightarrow>
               (if \<not> sqlite_int note_id
                then (Inl (HTTPException 500 overflow_text), conn)
                else case select_by_id note_id conn of
                       None \<Rightarrow> (Inl (HTTPException 404 ''Savol topilmadi''), conn)
                     | Some n \<Rightarrow>
                         (Inr (''Savol o'chirildi'', note_id), delete_by_id note_id conn)))"

text \<open>\<open>GET /api/stats\<close>; \<open>clock\<close> is \<open>datetime.now().isoformat()\<close>.\<close>

record stats =
  total_notes :: nat
  total_users :: nat
  last_note :: "int option"
  timestamp :: string

definition get_stats :: "string \<Rightarrow> string option \<Rightarrow> fault \<Rightarrow> string \<Rightarrow> database \<Rightarrow> http_error + stats" where
  "get_stats secret password fault clock d =
     (if password \<noteq> Some secret then Inl unauthorized
      else case get_db fault d of
             Inl e \<Rightarrow> Inl (HTTPException 500 e)
           | Inr conn \<Rightarrow>
               Inr \<lparr>total_notes = count_notes conn, total_users = count_users conn,
                    last_note = select_last conn, timestamp = clock\<rparr>)"

section \<open>The Telegram bot\<close>

text \<open>\<open>str(n)\<close> of an integer, as an f-string prints it: decimal digits, a sign when negative.\<close>

function str_nat :: "nat \<Rightarrow> string" where
  "str_nat n = (if n < 10 then [char_of (48 + n)]
                else str_nat (n div 10) @ [char_of (48 + n mod 10)])"
  by pat_completeness auto
termination
  by (relation "measure (\<lambda>n. n)") auto

declare str_nat.simps [simp del]

definition str_int :: "int \<Rightarrow> string" where
  "str_int i = (if i < 0 then CHR ''-'' # str_nat (nat (- i)) else str_nat (nat i))"

text \<open>
  The part of an \<open>Update\<close> that the handlers read: \<open>message_text\<close> is
  \<open>update.message.text\<close>, \<open>None\<close> when the update has no \<open>message\<close> (an edited message, a
  channel post), and \<open>effective_user\<close> is the sender, \<open>None\<close> when there is none. The field
  \<open>id\<close> of the user is \<open>user_id\<close>; Telegram issues these ids, with at most 52
  significant bits, so binding \<open>user.id\<close> does not overflow.
\<close>

record user =
  user_id :: int
  username :: "string option"
  first_name :: string

record update =
  message_text :: "string option"
  effective_user :: "user option"

text \<open>An exception that leaves a handler: no reply is sent.\<close>

datatype py_error = AttributeError

text \<open>\<open>user.username or user.first_name\<close>: \<open>None\<close> and the empty string are both false.\<close>

definition display_name :: "user \<Rightarrow> string" where
  "display_name u = (case username u of
       None \<Rightarrow> first_name u
     | Some s \<Rightarrow> if s = [] then first_name u else s)"

text \<open>The texts of the replies; the emoji are written as their UTF-8 bytes.\<close>

definition saved_text :: "int \<Rightarrow> string" where
  "saved_text note_id =
     [CHR 0xE2, CHR 0x9C, CHR 0x85] @ '' Savolingiz saqlandi! (ID: '' @ str_int note_id @ '')''
     @ [CHR 0x0A, CHR 0xF0, CHR 0x9F, CHR 0x8C, CHR 0x90] @ '' Web sahifada ko'rishingiz mumkin.''"

definition save_error_text :: string where
  "save_error_text =
     [CHR 0xE2, CHR 0x9D, CHR 0x8C] @ '' Saqlashda xatolik yuz berdi.''
     @ [CHR 0x0A] @ ''Iltimos, qaytadan urinib ko'ring.''"

definition stats_text :: "nat \<Rightarrow> nat \<Rightarrow> string \<Rightarrow> string" where
  "stats_text n_total n_users clock =
     [CHR 0xF0, CHR 0x9F, CHR 0x93, CHR 0x8A] @ '' Statistika:'' @ [CHR 0x0A, CHR 0x0A]
     @ [CHR 0xF0, CHR 0x9F, CHR 0x93, CHR 0x9D] @ '' Jami savollar: '' @ str_nat n_total @ [CHR 0x0A]
     @ [CHR 0xF0, CHR 0x9F, CHR 0x91, CHR 0xA5] @ '' Foydalanuvchilar: '' @ str_nat n_users @ [CHR 0x0A]
     @ [CHR 0xE2, CHR 0x8F, CHR 0xB0] @ '' Vaqt: '' @ clock"

definition stats_error_text :: string where
  "stats_error_text = [CHR 0xE2, CHR 0x9D, CHR 0x8C] @ '' Statistika olishda xatolik''"

text \<open>
  \<open>handle_message\<close>. \<open>update.message.text\<close> is read before the \<open>try\<close>; inside it the
  connection is opened, the color drawn, and \<open>user.id\<close> evaluated for the \<open>INSERT\<close>. The
  result is the one text passed to \<open>reply_text\<close>, or the exception that escapes, and the
  table.
\<close>

definition handle_message ::
  "update \<Rightarrow> fault \<Rightarrow> int \<Rightarrow> nat \<Rightarrow> database \<Rightarrow> (py_error + string) \<times> database" where
  "handle_message upd fault now rnd d =
     (case message_text upd of
        None \<Rightarrow> (Inl AttributeError, d)
      | Some q \<Rightarrow>
          (case get_db fault d of
             Inl e \<Rightarrow> (Inr save_error_text, d)
           | Inr conn \<Rightarrow>
               (let color = get_random_color rnd in
                case effective_user upd of
                  None \<Rightarrow> (Inr save_error_text, d)
                | Some u \<Rightarrow>
                    (let (note_id, conn') = insert_note q color
                           (Some (user_id u)) (Some (display_name u)) now conn
                     in (Inr (saved_text note_id), conn')))))"

text \<open>
  \<open>stats_command\<close>; \<open>clock\<close> is \<open>datetime.now().strftime(...)\<close>. Both reply calls go
  through \<open>update.message\<close>, so without a message the handler raises.
\<close>

definition stats_command :: "update \<Rightarrow> fault \<Rightarrow> string \<Rightarrow> database \<Rightarrow> py_error + string" where
  "stats_command upd fault clock d =
     (case message_text upd of
        None \<Rightarrow> Inl AttributeError
      | Some _ \<Rightarrow>
          (case get_db fault d of
             Inl e \<Rightarrow> Inr stats_error_text
           | Inr conn \<Rightarrow> Inr (stats_text (count_notes conn) (count_users conn) clock)))"

section \<open>Histories of requests\<close>

text \<open>
  The three handlers that write to the table, with all their inputs, and the table after
  a sequence of such requests. \<open>created\<close> lists the ids the requests have added, in the
  order of the requests, whether or not a later request deleted them.
\<close>

datatype call =
    CreateNote NoteCreate fault int nat
  | DeleteNote int "string option" fault
  | HandleMessage update fault int nat

fun exec :: "string \<Rightarrow> call \<Rightarrow> database \<Rightarrow> database" where
  "exec secret (CreateNote body fault now rnd) d = snd (create_note body fault now rnd d)"
| "exec secret (DeleteNote note_id password fault) d = snd (delete_note secret note_id password fault d)"
| "exec secret (HandleMessage upd fault now rnd) d = snd (handle_message upd fault now rnd d)"

definition run :: "string \<Rightarrow> call list \<Rightarrow> database \<Rightarrow> database" where
  "run secret cs d = fold (exec secret) cs d"

text \<open>
  Create requests that meet no storage fault, each with its body, clock and draw; and
  the requests whose user id can be bound, so that their \<open>INSERT\<close> runs.
\<close>

definition bindable :: "NoteCreate \<times> int \<times> nat \<Rightarrow> bool" where
  "bindable req = sqlite_int_opt (nc_telegram_user_id (fst req))"


definition inserts :: "(NoteCreate \<times> int \<times> nat) list \<Rightarrow> call list" where
  "inserts reqs = map (\<lambda>(body, now, rnd). CreateNote body None now rnd) reqs"

definition new_ids :: "database \<Rightarrow> database \<Rightarrow> int list" where
  "new_ids d d' =
     filter (\<lambda>i. i \<notin> set (map id_col (notes_table d))) (map id_col (notes_table d'))"

fun created :: "string \<Rightarrow> call list \<Rightarrow> database \<Rightarrow> int list" where
  "created secret [] d = []"
| "created secret (c # cs) d = new_ids d (exec secret c d) @ created secret cs (exec secret c d)"

text \<open>
  What \<open>INTEGER PRIMARY KEY AUTOINCREMENT\<close> maintains: the rows are scanned in strictly
  ascending order of their ids, and no id exceeds the counter.
\<close>

definition db_inv :: "database \<Rightarrow> bool" where
  "db_inv d = (sorted_wrt (<) (map id_col (notes_table d))
     \<and> list_all (\<lambda>n. id_col n \<le> sqlite_sequence d) (notes_table d))"

text \<open>
  The effect of an \<open>INSERT\<close> on the table: one row more, at the end, with the next rowid,
  which is also the new value of the counter.
\<close>

definition appended :: "database \<Rightarrow> database \<Rightarrow> bool" where
  "appended d d' = (notes_table d' \<noteq> [] \<and> butlast (notes_table d') = notes_table d
     \<and> id_col (last (notes_table d')) = next_rowid d \<and> sqlite_sequence d' = next_rowid d)"


section \<open>Facts about the statements\<close>

lemma fold_max_ge: "a \<le> fold max xs (a::int)"
  by (induction xs arbitrary: a) (auto intro: order_trans[OF max.cobounded2])

lemma fold_max_mem: "x \<in> set xs \<Longrightarrow> x \<le> fold max xs (a::int)"
proof (induction xs arbitrary: a)
  case Nil then show ?case by simp
next
  case (Cons y ys)
  show ?case
  proof (cases "x = y")
    case True
    have "max y a \<le> fold max ys (max y a)" by (rule fold_max_ge)
    with True show ?thesis by simp
  next
    case False
    with Cons show ?thesis by simp
  qed
qed

lemma next_rowid_gt_seq: "sqlite_sequence d < next_rowid d"
  by (simp add: next_rowid_def)

lemma next_rowid_gt_rows: "n \<in> set (notes_table d) \<Longrightarrow> id_col n < next_rowid d"
  using fold_max_mem[of "id_col n" "map id_col (notes_table d)" 0]
  by (simp add: next_rowid_def)

lemma find_append_new:
  "\<forall>x\<in>set xs. \<not> P x \<Longrightarrow> P y \<Longrightarrow> find P (xs @ [y]) = Some y"
  by (induction xs) auto

lemma find_new_row:
  "id_col r = next_rowid d \<Longrightarrow> find (\<lambda>n. id_col n = next_rowid d) (notes_table d @ [r]) = Some r"
proof (rule find_append_new)
  show "\<forall>x\<in>set (notes_table d). id_col x \<noteq> next_rowid d"
    using next_rowid_gt_rows[of _ d] by fastforce
qed

lemma create_note_ok:
  "sqlite_int_opt (nc_telegram_user_id body) \<Longrightarrow>
   create_note body None now rnd d =
     (Inr \<lparr>id_col = next_rowid d, question = nc_question body, created_at = now,
           color = get_random_color rnd, telegram_user_id = nc_telegram_user_id body,
           telegram_username = nc_telegram_username body\<rparr>,
      \<lparr>notes_table = notes_table d @
          [\<lparr>id_col = next_rowid d, question = nc_question body, created_at = now,
            color = get_random_color rnd, telegram_user_id = nc_telegram_user_id body,
            telegram_username = nc_telegram_username body\<rparr>],
        sqlite_sequence = next_rowid d\<rparr>)"
  by (simp add: create_note_def get_db_def Let_def insert_note_def select_by_id_def find_new_row)

lemma create_note_overflow:
  "\<not> sqlite_int_opt (nc_telegram_user_id body) \<Longrightarrow>
   create_note body None now rnd d = (Inl (HTTPException 500 overflow_text), d)"
  by (simp add: create_note_def get_db_def)


section \<open>Facts about the handlers and histories\<close>


lemma select_by_id_None: "(select_by_id i d = None) = (i \<notin> id_col ` set (notes_table d))"
  by (auto simp: select_by_id_def find_None_iff)

lemma select_by_id_Some: "select_by_id i d = Some n \<Longrightarrow> n \<in> set (notes_table d) \<and> id_col n = i"
  by (auto simp: select_by_id_def find_Some_iff)

lemma appendedI:
  "id_col r = next_rowid d \<Longrightarrow>
   appended d \<lparr>notes_table = notes_table d @ [r], sqlite_sequence = next_rowid d\<rparr>"
  by (simp add: appended_def)

lemma appendedD:
  assumes "appended d d'"
  shows "\<exists>r. id_col r = next_rowid d \<and> notes_table d' = notes_table d @ [r]
           \<and> sqlite_sequence d' = next_rowid d"
proof -
  from assms have ne: "notes_table d' \<noteq> []" and bl: "butlast (notes_table d') = notes_table d"
    by (simp_all add: appended_def)
  have "notes_table d' = notes_table d @ [last (notes_table d')]"
    using append_butlast_last_id[OF ne] by (simp add: bl)
  with assms show ?thesis by (auto simp: appended_def)
qed

lemma create_note_effect:
  "snd (create_note body fault now rnd d) = d \<or> appended d (snd (create_note body fault now rnd d))"
proof (cases fault)
  case None
  then show ?thesis
    by (cases "sqlite_int_opt (nc_telegram_user_id body)")
      (simp_all add: create_note_ok create_note_overflow appendedI)
next
  case (Some e)
  then show ?thesis by (simp add: create_note_def get_db_def)
qed

lemma handle_message_effect:
  "snd (handle_message upd fault now rnd d) = d \<or> appended d (snd (handle_message upd fault now rnd d))"
  by (auto simp: handle_message_def get_db_def Let_def insert_note_def appendedI
      split: option.splits)

lemma delete_note_effect:
  "snd (delete_note secret i password fault d) = d
   \<or> snd (delete_note secret i password fault d) = delete_by_id i d"
  by (auto simp: delete_note_def get_db_def split: option.splits)

lemma exec_effect:
  "exec secret c d = d \<or> appended d (exec secret c d) \<or> (\<exists>i. exec secret c d = delete_by_id i d)"
proof (cases c)
  case (CreateNote body fault now rnd)
  then show ?thesis using create_note_effect[of body fault now rnd d] by auto
next
  case (DeleteNote i password fault)
  then show ?thesis using delete_note_effect[of secret i password fault d] by auto
next
  case (HandleMessage upd fault now rnd)
  then show ?thesis using handle_message_effect[of upd fault now rnd d] by auto
qed




lemma exec_seq_mono: "sqlite_sequence d \<le> sqlite_sequence (exec secret c d)"
  using exec_effect[of secret c d] next_rowid_gt_seq[of d]
  by (auto dest!: appendedD simp: delete_by_id_def)


lemma run_Cons: "run secret (c # cs) d = run secret cs (exec secret c d)"
  by (simp add: run_def)



lemma db_inv_appended: "db_inv d \<Longrightarrow> appended d d' \<Longrightarrow> db_inv d'"
  using next_rowid_gt_rows[of _ d] next_rowid_gt_seq[of d]
  by (fastforce dest!: appendedD simp: db_inv_def sorted_wrt_append list_all_iff)

lemma db_inv_delete: "db_inv d \<Longrightarrow> db_inv (delete_by_id i d)"
  by (auto simp: db_inv_def delete_by_id_def list_all_iff sorted_wrt_map intro: sorted_wrt_filter)

lemma db_inv_exec: "db_inv d \<Longrightarrow> db_inv (exec secret c d)"
  using exec_effect[of secret c d] by (auto intro: db_inv_appended db_inv_delete)

lemma db_inv_run: "db_inv d \<Longrightarrow> db_inv (run secret cs d)"
  by (induction cs arbitrary: d) (simp_all add: run_def db_inv_exec)

lemma db_inv_init: "db_inv (init_db None)"
  by (simp add: db_inv_def init_db_def)

section \<open>Facts about deletion\<close>

lemma delete_note_overflow:
  "\<not> sqlite_int note_id \<Longrightarrow>
   delete_note secret note_id (Some secret) None d = (Inl (HTTPException 500 overflow_text), d)"
  by (simp add: delete_note_def get_db_def)

lemma delete_note_absent:
  "sqlite_int note_id \<Longrightarrow> note_id \<notin> id_col ` set (notes_table d) \<Longrightarrow>
   delete_note secret note_id (Some secret) None d = (Inl (HTTPException 404 ''Savol topilmadi''), d)"
  using select_by_id_None[of note_id d]
  by (simp add: delete_note_def get_db_def)

lemma delete_note_present:
  "sqlite_int note_id \<Longrightarrow> note_id \<in> id_col ` set (notes_table d) \<Longrightarrow>
   delete_note secret note_id (Some secret) None d
     = (Inr (''Savol o'chirildi'', note_id), delete_by_id note_id d)"
  using select_by_id_None[of note_id d]
  by (auto simp: delete_note_def get_db_def split: option.splits)

lemma deleted_absent: "note_id \<notin> id_col ` set (notes_table (delete_by_id note_id d))"
  by (auto simp: delete_by_id_def)

lemma ids_run_subset:
  "id_col ` set (notes_table (run secret cs d))
     \<subseteq> id_col ` set (notes_table d) \<union> set (created secret cs d)"
proof (induction cs arbitrary: d)
  case Nil
  then show ?case by (simp add: run_def)
next
  case (Cons c cs)
  have step: "id_col ` set (notes_table (exec secret c d))
      \<subseteq> id_col ` set (notes_table d) \<union> set (new_ids d (exec secret c d))"
    by (auto simp: new_ids_def)
  from Cons.IH[of "exec secret c d"] step show ?case
    by (auto simp: run_Cons)
qed

lemma absent_exec:
  assumes "i \<le> sqlite_sequence d" "i \<notin> id_col ` set (notes_table d)"
  shows "i \<notin> id_col ` set (notes_table (exec secret c d))"
  using exec_effect[of secret c d] assms next_rowid_gt_seq[of d]
  by (auto dest!: appendedD simp: delete_by_id_def)

lemma absent_run:
  "i \<le> sqlite_sequence d \<Longrightarrow> i \<notin> id_col ` set (notes_table d) \<Longrightarrow>
   i \<notin> id_col ` set (notes_table (run secret cs d))"
proof (induction cs arbitrary: d)
  case Nil
  then show ?case by (simp add: run_def)
next
  case (Cons c cs)
  have "i \<le> sqlite_sequence (exec secret c d)"
    using Cons.prems(1) exec_seq_mono[of d secret c] by linarith
  moreover have "i \<notin> id_col ` set (notes_table (exec secret c d))"
    using Cons.prems by (rule absent_exec)
  ultimately show ?case using Cons.IH by (simp add: run_Cons)
qed

lemma db_inv_ids_le: "db_inv d \<Longrightarrow> i \<in> id_col ` set (notes_table d) \<Longrightarrow> i \<le> sqlite_sequence d"
  by (auto simp: db_inv_def list_all_iff)

lemma mset_delete_row:
  "sorted_wrt (<) (map id_col xs) \<Longrightarrow> n \<in> set xs \<Longrightarrow>
   mset xs = add_mset n (mset (filter (\<lambda>m. id_col m \<noteq> id_col n) xs))"
proof (induction xs)
  case Nil
  then show ?case by simp
next
  case (Cons x xs)
  show ?case
  proof (cases "x = n")
    case True
    from Cons.prems(1) have "\<forall>m\<in>set xs. id_col m \<noteq> id_col x" by fastforce
    then have "filter (\<lambda>m. id_col m \<noteq> id_col x) xs = xs" by (simp add: filter_id_conv)
    with True show ?thesis by simp
  next
    case False
    with Cons.prems have mem: "n \<in> set xs" and srt: "sorted_wrt (<) (map id_col xs)"
      and "\<forall>m\<in>set xs. id_col x < id_col m" by auto
    then have "id_col x \<noteq> id_col n" by fastforce
    with Cons.IH[OF srt mem] show ?thesis by simp
  qed
qed

section \<open>Facts about the statistics\<close>

lemma set_map_filter: "set (List.map_filter f xs) = {u. \<exists>n\<in>set xs. f n = Some u}"
  by (induction xs) (auto split: option.splits)

lemma count_users_card:
  "count_users d = card {u. \<exists>n\<in>set (notes_table d). telegram_user_id n = Some u}"
  by (simp add: count_users_def length_remdups_card_conv set_map_filter)

lemma get_stats_ok:
  "get_stats secret (Some secret) None clock d =
     Inr \<lparr>total_notes = count_notes d, total_users = count_users d,
          last_note = select_last d, timestamp = clock\<rparr>"
  by (simp add: get_stats_def get_db_def)

lemma three_created:
  "sqlite_int_opt (nc_telegram_user_id b1) \<Longrightarrow> sqlite_int_opt (nc_telegram_user_id b2) \<Longrightarrow>
   sqlite_int_opt (nc_telegram_user_id b3) \<Longrightarrow>
   run secret [CreateNote b1 None t1 r1, CreateNote b2 None t2 r2, CreateNote b3 None t3 r3]
      (init_db None)
   = \<lparr>notes_table =
       [\<lparr>id_col = 1, question = nc_question b1, created_at = t1, color = get_random_color r1,
         telegram_user_id = nc_telegram_user_id b1, telegram_username = nc_telegram_username b1\<rparr>,
        \<lparr>id_col = 2, question = nc_question b2, created_at = t2, color = get_random_color r2,
         telegram_user_id = nc_telegram_user_id b2, telegram_username = nc_telegram_username b2\<rparr>,
        \<lparr>id_col = 3, question = nc_question b3, created_at = t3, color = get_random_color r3,
         telegram_user_id = nc_telegram_user_id b3, telegram_username = nc_telegram_username b3\<rparr>],
      sqlite_sequence = 3\<rparr>"
  by (simp add: run_def create_note_ok init_db_def next_rowid_def)

section \<open>Facts about the ordered listing\<close>

lemma insort_key_last:
  "\<forall>y\<in>set ys. g y < g x \<Longrightarrow> insort_key g x ys = ys @ [x]"
  by (induction ys) auto

lemma sort_desc_increasing:
  "sorted_wrt (<) (map f xs) \<Longrightarrow> sort_key (\<lambda>x. - f x) xs = rev (xs :: 'a list)"
  for f :: "'a \<Rightarrow> int"
proof (induction xs)
  case Nil
  then show ?case by simp
next
  case (Cons x xs)
  then have IH: "sort_key (\<lambda>x. - f x) xs = rev xs" and lt: "\<forall>y\<in>set xs. f x < f y"
    by auto
  from lt have "\<forall>y\<in>set (rev xs). - f y < - f x" by simp
  then have "insort_key (\<lambda>x. - f x) x (rev xs) = rev xs @ [x]"
    by (rule insort_key_last)
  with IH show ?case by simp
qed

lemma select_ordered_sorted:
  "sorted_wrt (\<lambda>a b. created_at b \<le> created_at a) (select_ordered d)"
proof -
  have "sorted (map (\<lambda>n. - created_at n) (select_ordered d))"
    unfolding select_ordered_def by (rule sorted_sort_key)
  then show ?thesis by (simp add: sorted_map)
qed

lemma select_ordered_ties:
  "filter (\<lambda>n. created_at n = t) (select_ordered d) = filter (\<lambda>n. created_at n = t) (notes_table d)"
  using sort_key_stable[of "\<lambda>n. - created_at n" "- t" "notes_table d"]
  by (simp add: select_ordered_def)

lemma bindable_triple:
  "bindable (body, now, rnd) = sqlite_int_opt (nc_telegram_user_id body)"
  by (simp add: bindable_def)

lemma inserts_Cons:
  "run secret (inserts ((body, now, rnd) # reqs)) d
     = run secret (inserts reqs) (snd (create_note body None now rnd d))"
  by (simp add: inserts_def run_def)

lemma inserts_created_at:
  "list_all bindable reqs \<Longrightarrow>
   map created_at (notes_table (run secret (inserts reqs) d))
     = map created_at (notes_table d) @ map (fst \<circ> snd) reqs"
proof (induction reqs arbitrary: d)
  case Nil
  then show ?case by (simp add: inserts_def run_def)
next
  case (Cons r reqs)
  obtain body now rnd where r: "r = (body, now, rnd)" by (cases r)
  from Cons.prems have ok: "sqlite_int_opt (nc_telegram_user_id body)" and rest: "list_all bindable reqs"
    by (simp_all add: r bindable_triple)
  show ?case unfolding r inserts_Cons Cons.IH[OF rest] by (simp add: create_note_ok[OF ok])
qed

lemma inserts_question:
  "list_all bindable reqs \<Longrightarrow>
   map question (notes_table (run secret (inserts reqs) d))
     = map question (notes_table d) @ map (nc_question \<circ> fst) reqs"
proof (induction reqs arbitrary: d)
  case Nil
  then show ?case by (simp add: inserts_def run_def)
next
  case (Cons r reqs)
  obtain body now rnd where r: "r = (body, now, rnd)" by (cases r)
  from Cons.prems have ok: "sqlite_int_opt (nc_telegram_user_id body)" and rest: "list_all bindable reqs"
    by (simp_all add: r bindable_triple)
  show ?case unfolding r inserts_Cons Cons.IH[OF rest] by (simp add: create_note_ok[OF ok])
qed

section \<open>The access guard\<close>

text \<open>
  C2. The password check authorizes exactly the candidate that equals the configured
  secret, and answers every other candidate with status 401. With the default secret
  "12345": "12345" is authorized, "12346" and the empty string are not.
\<close>

theorem check_password_iff:
  "(check_password secret candidate = Inr (True, ''Parol to'g'ri'')) = (candidate = secret)
   \<and> (\<exists>m. check_password secret candidate = Inr (True, m)) = (candidate = secret)
   \<and> (check_password secret candidate = Inl (HTTPException 401 ''Parol noto'g'ri''))
       = (candidate \<noteq> secret)
   \<and> (\<forall>m. check_password secret candidate \<noteq> Inr (False, m))
   \<and> check_password (SECRET_PASSWORD None) ''12345'' = Inr (True, ''Parol to'g'ri'')
   \<and> check_password (SECRET_PASSWORD None) ''12346'' = Inl (HTTPException 401 ''Parol noto'g'ri'')
   \<and> check_password (SECRET_PASSWORD None) '''' = Inl (HTTPException 401 ''Parol noto'g'ri'')"
  by (simp add: check_password_def SECRET_PASSWORD_def)

section \<open>The guarded endpoints\<close>

text \<open>
  C1. A request to one of the three guarded endpoints (list notes, delete note, stats)
  whose password is absent (\<open>None\<close>) or differs from the secret is answered with the
  authorization failure (status 401). The answer is the same for every table and every
  state of the storage layer, so the table is not consulted, and the delete endpoint
  returns the table as it received it, whether or not the id exists.
\<close>

theorem guarded_endpoints_reject:
  "password \<noteq> Some secret \<Longrightarrow>
     get_notes secret password fault d = Inl (HTTPException 401 ''Parol talab qilinadi yoki noto'g'ri'')
   \<and> delete_note secret note_id password fault d
       = (Inl (HTTPException 401 ''Parol talab qilinadi yoki noto'g'ri''), d)
   \<and> get_stats secret password fault clock d
       = Inl (HTTPException 401 ''Parol talab qilinadi yoki noto'g'ri'')"
  by (simp add: get_notes_def delete_note_def get_stats_def unauthorized_def)

theorem guarded_endpoints_reject_witness:
  "delete_note ''12345'' 1 (Some ''12346'') None
      \<lparr>notes_table = [\<lparr>id_col = 1, question = ''q'', created_at = 7, color = ''color-pink'',
          telegram_user_id = None, telegram_username = None\<rparr>], sqlite_sequence = 1\<rparr>
    = (Inl (HTTPException 401 ''Parol talab qilinadi yoki noto'g'ri''),
      \<lparr>notes_table = [\<lparr>id_col = 1, question = ''q'', created_at = 7, color = ''color-pink'',
          telegram_user_id = None, telegram_username = None\<rparr>], sqlite_sequence = 1\<rparr>)
   \<and> get_notes ''12345'' None None
      \<lparr>notes_table = [\<lparr>id_col = 1, question = ''q'', created_at = 7, color = ''color-pink'',
          telegram_user_id = None, telegram_username = None\<rparr>], sqlite_sequence = 1\<rparr>
    = Inl (HTTPException 401 ''Parol talab qilinadi yoki noto'g'ri'')"
proof -
  have wrong: "Some ''12346'' \<noteq> Some ''12345''" by simp
  have absent: "(None :: string option) \<noteq> Some ''12345''" by simp
  show ?thesis
    using guarded_endpoints_reject[OF wrong] guarded_endpoints_reject[OF absent] by simp
qed

section \<open>Creating notes\<close>







section \<open>Deleting notes\<close>

text \<open>
  C5, as stated, fails: the id \<open>2 ^ 63\<close> was never created, yet with the right password
  and no storage fault deleting it is answered with status 500, not with not-found.
\<close>

theorem delete_note_overflow_counterexample:
  "9223372036854775808 \<notin> id_col ` set (notes_table (init_db None))
   \<and> 9223372036854775808 \<notin> set (created ''12345'' [] (init_db None))
   \<and> delete_note ''12345'' 9223372036854775808 (Some ''12345'') None (init_db None)
     = (Inl (HTTPException 500 ''Python int too large to convert to SQLite INTEGER''),
        \<lparr>notes_table = [], sqlite_sequence = 0\<rparr>)"
  by (simp add: delete_note_def get_db_def sqlite_int_def overflow_text_def init_db_def)

text \<open>
  C5, amended. With the right password and no storage fault, deleting an id within the
  signed 64-bit range that is not in the table reports not-found (status 404) and
  returns the table as it was; this covers an id that no request of a history starting
  from the empty table has created. Deleting an id of that range that is in the table
  looks it up, removes it and returns the confirmation message with the id; afterwards
  the id is not found, and it stays deleted through every later history, so deleting
  it again reports not-found. An id outside the range is answered with status 500, and
  the table is returned as it was.
\<close>

theorem delete_note_not_found:
  "(sqlite_int note_id \<and> note_id \<notin> id_col ` set (notes_table d) \<longrightarrow>
      delete_note secret note_id (Some secret) None d
        = (Inl (HTTPException 404 ''Savol topilmadi''), d))
   \<and> (sqlite_int note_id \<and> note_id \<in> id_col ` set (notes_table d) \<longrightarrow>
      delete_note secret note_id (Some secret) None d
        = (Inr (''Savol o'chirildi'', note_id), delete_by_id note_id d)
      \<and> select_by_id note_id (delete_by_id note_id d) = None
      \<and> (db_inv d \<longrightarrow>
          delete_note secret note_id (Some secret) None (run secret cs (delete_by_id note_id d))
            = (Inl (HTTPException 404 ''Savol topilmadi''), run secret cs (delete_by_id note_id d))))
   \<and> (sqlite_int note_id \<and> note_id \<notin> set (created secret cs (init_db None)) \<longrightarrow>
      delete_note secret note_id (Some secret) None (run secret cs (init_db None))
        = (Inl (HTTPException 404 ''Savol topilmadi''), run secret cs (init_db None)))
   \<and> (\<not> sqlite_int note_id \<longrightarrow>
      delete_note secret note_id (Some secret) None d = (Inl (HTTPException 500 overflow_text), d))"
proof (intro conjI impI)
  assume "sqlite_int note_id \<and> note_id \<notin> id_col ` set (notes_table d)"
  then show "delete_note secret note_id (Some secret) None d
        = (Inl (HTTPException 404 ''Savol topilmadi''), d)"
    by (simp add: delete_note_absent)
next
  assume "sqlite_int note_id \<and> note_id \<in> id_col ` set (notes_table d)"
  then show "delete_note secret note_id (Some secret) None d
        = (Inr (''Savol o'chirildi'', note_id), delete_by_id note_id d)"
    by (simp add: delete_note_present)
next
  show "select_by_id note_id (delete_by_id note_id d) = None"
    using deleted_absent[of note_id d] by (simp add: select_by_id_None)
next
  assume present: "sqlite_int note_id \<and> note_id \<in> id_col ` set (notes_table d)"
    and inv: "db_inv d"
  let ?d = "delete_by_id note_id d"
  from present have rng: "sqlite_int note_id" and mem: "note_id \<in> id_col ` set (notes_table d)"
    by simp_all
  have "note_id \<le> sqlite_sequence ?d"
    using db_inv_ids_le[OF inv mem] by (simp add: delete_by_id_def)
  then have "note_id \<notin> id_col ` set (notes_table (run secret cs ?d))"
    using deleted_absent[of note_id d] by (rule absent_run)
  with rng show "delete_note secret note_id (Some secret) None (run secret cs ?d)
            = (Inl (HTTPException 404 ''Savol topilmadi''), run secret cs ?d)"
    by (rule delete_note_absent)
next
  assume never: "sqlite_int note_id \<and> note_id \<notin> set (created secret cs (init_db None))"
  then have rng: "sqlite_int note_id" by simp
  have "note_id \<notin> id_col ` set (notes_table (run secret cs (init_db None)))"
    using ids_run_subset[of secret cs "init_db None"] never by (auto simp: init_db_def)
  with rng show "delete_note secret note_id (Some secret) None (run secret cs (init_db None))
        = (Inl (HTTPException 404 ''Savol topilmadi''), run secret cs (init_db None))"
    by (rule delete_note_absent)
next
  assume "\<not> sqlite_int note_id"
  then show "delete_note secret note_id (Some secret) None d
      = (Inl (HTTPException 500 overflow_text), d)"
    by (rule delete_note_overflow)
qed

theorem delete_note_not_found_witness:
  "delete_note ''12345'' 7 (Some ''12345'') None
      \<lparr>notes_table = [\<lparr>id_col = 1, question = ''q'', created_at = 7, color = ''color-pink'',
          telegram_user_id = None, telegram_username = None\<rparr>], sqlite_sequence = 1\<rparr>
    = (Inl (HTTPException 404 ''Savol topilmadi''),
      \<lparr>notes_table = [\<lparr>id_col = 1, question = ''q'', created_at = 7, color = ''color-pink'',
          telegram_user_id = None, telegram_username = None\<rparr>], sqlite_sequence = 1\<rparr>)
   \<and> delete_note ''12345'' 1 (Some ''12345'') None
      \<lparr>notes_table = [\<lparr>id_col = 1, question = ''q'', created_at = 7, color = ''color-pink'',
          telegram_user_id = None, telegram_username = None\<rparr>], sqlite_sequence = 1\<rparr>
    = (Inr (''Savol o'chirildi'', 1), \<lparr>notes_table = [], sqlite_sequence = 1\<rparr>)
   \<and> delete_note ''12345'' 1 (Some ''12345'') None \<lparr>notes_table = [], sqlite_sequence = 1\<rparr>
    = (Inl (HTTPException 404 ''Savol topilmadi''), \<lparr>notes_table = [], sqlite_sequence = 1\<rparr>)
   \<and> delete_note ''12345'' 1 (Some ''12345'') None (run ''12345'' [] (init_db None))
    = (Inl (HTTPException 404 ''Savol topilmadi''), \<lparr>notes_table = [], sqlite_sequence = 0\<rparr>)"
  using
    delete_note_not_found[of 7
      "\<lparr>notes_table = [\<lparr>id_col = 1, question = ''q'', created_at = 7, color = ''color-pink'',
          telegram_user_id = None, telegram_username = None\<rparr>], sqlite_sequence = 1\<rparr>"
      "''12345''" "[]"]
    delete_note_not_found[of 1
      "\<lparr>notes_table = [\<lparr>id_col = 1, question = ''q'', created_at = 7, color = ''color-pink'',
          telegram_user_id = None, telegram_username = None\<rparr>], sqlite_sequence = 1\<rparr>"
      "''12345''" "[]"]
  by (simp add: run_def delete_by_id_def db_inv_def init_db_def sqlite_int_def)

text \<open>
  C10. A successful delete removes exactly the looked-up row with that id: the table
  afterwards is the table before without that one row, every other row is kept as it
  is and in the same order, no row is added, the number of rows drops by one, and the
  counter of ids is untouched.
\<close>

theorem delete_note_frame:
  assumes inv: "db_inv d"
    and del: "delete_note secret note_id password fault d = (Inr r, d')"
  shows "\<exists>n. select_by_id note_id d = Some n \<and> id_col n = note_id
     \<and> r = (''Savol o'chirildi'', note_id)
     \<and> notes_table d' = filter (\<lambda>m. id_col m \<noteq> note_id) (notes_table d)
     \<and> mset (notes_table d) = add_mset n (mset (notes_table d'))
     \<and> (\<forall>m\<in>set (notes_table d). id_col m \<noteq> note_id \<longrightarrow> m \<in> set (notes_table d'))
     \<and> set (notes_table d') \<subseteq> set (notes_table d)
     \<and> length (notes_table d) = length (notes_table d') + 1
     \<and> sqlite_sequence d' = sqlite_sequence d"
proof -
  from del obtain n where sel: "select_by_id note_id d = Some n"
    and r: "r = (''Savol o'chirildi'', note_id)" and d': "d' = delete_by_id note_id d"
    by (auto simp: delete_note_def get_db_def split: if_splits option.splits)
  from select_by_id_Some[OF sel] have mem: "n \<in> set (notes_table d)" and idn: "id_col n = note_id"
    by simp_all
  from inv have srt: "sorted_wrt (<) (map id_col (notes_table d))" by (simp add: db_inv_def)
  have rows: "notes_table d' = filter (\<lambda>m. id_col m \<noteq> note_id) (notes_table d)"
    by (simp add: d' delete_by_id_def)
  have ms: "mset (notes_table d) = add_mset n (mset (notes_table d'))"
    using mset_delete_row[OF srt mem] by (simp add: rows idn)
  have len: "length (notes_table d) = length (notes_table d') + 1"
    using arg_cong[OF ms, of size] by simp
  have keep: "\<forall>m\<in>set (notes_table d). id_col m \<noteq> note_id \<longrightarrow> m \<in> set (notes_table d')"
    by (simp add: rows)
  have sub: "set (notes_table d') \<subseteq> set (notes_table d)" by (auto simp: rows)
  have seq: "sqlite_sequence d' = sqlite_sequence d" by (simp add: d' delete_by_id_def)
  from sel idn r rows ms keep sub len seq show ?thesis by blast
qed

theorem delete_note_frame_witness:
  "db_inv
      \<lparr>notes_table = [\<lparr>id_col = 1, question = ''a'', created_at = 10, color = ''color-pink'',
          telegram_user_id = None, telegram_username = None\<rparr>,
        \<lparr>id_col = 2, question = ''b'', created_at = 11, color = ''color-pink'',
          telegram_user_id = None, telegram_username = None\<rparr>,
        \<lparr>id_col = 3, question = ''c'', created_at = 12, color = ''color-pink'',
          telegram_user_id = None, telegram_username = None\<rparr>], sqlite_sequence = 3\<rparr>
   \<and> delete_note ''12345'' 2 (Some ''12345'') None
      \<lparr>notes_table = [\<lparr>id_col = 1, question = ''a'', created_at = 10, color = ''color-pink'',
          telegram_user_id = None, telegram_username = None\<rparr>,
        \<lparr>id_col = 2, question = ''b'', created_at = 11, color = ''color-pink'',
          telegram_user_id = None, telegram_username = None\<rparr>,
        \<lparr>id_col = 3, question = ''c'', created_at = 12, color = ''color-pink'',
          telegram_user_id = None, telegram_username = None\<rparr>], sqlite_sequence = 3\<rparr>
     = (Inr (''Savol o'chirildi'', 2),
      \<lparr>notes_table = [\<lparr>id_col = 1, question = ''a'', created_at = 10, color = ''color-pink'',
          telegram_user_id = None, telegram_username = None\<rparr>,
        \<lparr>id_col = 3, question = ''c'', created_at = 12, color = ''color-pink'',
          telegram_user_id = None, telegram_username = None\<rparr>], sqlite_sequence = 3\<rparr>)
   \<and> mset (notes_table
      \<lparr>notes_table = [\<lparr>id_col = 1, question = ''a'', created_at = 10, color = ''color-pink'',
          telegram_user_id = None, telegram_username = None\<rparr>,
        \<lparr>id_col = 2, question = ''b'', created_at = 11, color = ''color-pink'',
          telegram_user_id = None, telegram_username = None\<rparr>,
        \<lparr>id_col = 3, question = ''c'', created_at = 12, color = ''color-pink'',
          telegram_user_id = None, telegram_username = None\<rparr>], sqlite_sequence = 3\<rparr>)
     = add_mset
        \<lparr>id_col = 2, question = ''b'', created_at = 11, color = ''color-pink'',
          telegram_user_id = None, telegram_username = None\<rparr>
        (mset (notes_table
      \<lparr>notes_table = [\<lparr>id_col = 1, question = ''a'', created_at = 10, color = ''color-pink'',
          telegram_user_id = None, telegram_username = None\<rparr>,
        \<lparr>id_col = 3, question = ''c'', created_at = 12, color = ''color-pink'',
          telegram_user_id = None, telegram_username = None\<rparr>], sqlite_sequence = 3\<rparr>))"
proof -
  have inv: "db_inv
      \<lparr>notes_table = [\<lparr>id_col = 1, question = ''a'', created_at = 10, color = ''color-pink'',
          telegram_user_id = None, telegram_username = None\<rparr>,
        \<lparr>id_col = 2, question = ''b'', created_at = 11, color = ''color-pink'',
          telegram_user_id = None, telegram_username = None\<rparr>,
        \<lparr>id_col = 3, question = ''c'', created_at = 12, color = ''color-pink'',
          telegram_user_id = None, telegram_username = None\<rparr>], sqlite_sequence = 3\<rparr>"
    by (simp add: db_inv_def)
  have del: "delete_note ''12345'' 2 (Some ''12345'') None
      \<lparr>notes_table = [\<lparr>id_col = 1, question = ''a'', created_at = 10, color = ''color-pink'',
          telegram_user_id = None, telegram_username = None\<rparr>,
        \<lparr>id_col = 2, question = ''b'', created_at = 11, color = ''color-pink'',
          telegram_user_id = None, telegram_username = None\<rparr>,
        \<lparr>id_col = 3, question = ''c'', created_at = 12, color = ''color-pink'',
          telegram_user_id = None, telegram_username = None\<rparr>], sqlite_sequence = 3\<rparr>
     = (Inr (''Savol o'chirildi'', 2),
      \<lparr>notes_table = [\<lparr>id_col = 1, question = ''a'', created_at = 10, color = ''color-pink'',
          telegram_user_id = None, telegram_username = None\<rparr>,
        \<lparr>id_col = 3, question = ''c'', created_at = 12, color = ''color-pink'',
          telegram_user_id = None, telegram_username = None\<rparr>], sqlite_sequence = 3\<rparr>)"
    by (simp add: delete_note_def get_db_def select_by_id_def delete_by_id_def sqlite_int_def)
  from delete_note_frame[OF inv del] inv del show ?thesis
    by (auto simp: select_by_id_def)
qed

section \<open>The submitter identity\<close>




section \<open>The bot's message handler\<close>



section \<open>Statistics\<close>

text \<open>
  C6. With the right password and no storage fault, the stats endpoint reports as
  total the number of rows of the table and as users the number of distinct user ids
  that are not null; the bot's stats command prints the same two numbers. After three
  notes are created in the empty table and any one of them is deleted, the count is 2;
  after two notes with the same user id and one without a user id, the number of users
  is 1. (The notes are created: their user ids are absent or within the signed 64-bit
  range.)
\<close>

theorem stats_counts:
  "get_stats secret (Some secret) None clock d =
     Inr \<lparr>total_notes = length (notes_table d),
          total_users = card {u. \<exists>n\<in>set (notes_table d). telegram_user_id n = Some u},
          last_note = select_last d, timestamp = clock\<rparr>
   \<and> (message_text upd \<noteq> None \<longrightarrow>
        stats_command upd None clock' d =
          Inr (stats_text (length (notes_table d))
                (card {u. \<exists>n\<in>set (notes_table d). telegram_user_id n = Some u}) clock'))
   \<and> (sqlite_int_opt (nc_telegram_user_id b1) \<and> sqlite_int_opt (nc_telegram_user_id b2)
        \<and> sqlite_int_opt (nc_telegram_user_id b3) \<and> (k = 1 \<or> k = 2 \<or> k = 3) \<longrightarrow>
        count_notes (run secret
          [CreateNote b1 None t1 r1, CreateNote b2 None t2 r2, CreateNote b3 None t3 r3,
           DeleteNote k (Some secret) None] (init_db None)) = 2)
   \<and> (sqlite_int uid \<longrightarrow>
        count_users (run secret
          [CreateNote \<lparr>nc_question = q1, nc_telegram_user_id = Some uid, nc_telegram_username = n1\<rparr> None t1 r1,
           CreateNote \<lparr>nc_question = q2, nc_telegram_user_id = Some uid, nc_telegram_username = n2\<rparr> None t2 r2,
           CreateNote \<lparr>nc_question = q3, nc_telegram_user_id = None, nc_telegram_username = n3\<rparr> None t3 r3]
          (init_db None)) = 1)"
proof (intro conjI impI)
  show "get_stats secret (Some secret) None clock d =
     Inr \<lparr>total_notes = length (notes_table d),
          total_users = card {u. \<exists>n\<in>set (notes_table d). telegram_user_id n = Some u},
          last_note = select_last d, timestamp = clock\<rparr>"
    by (simp add: get_stats_ok count_users_card count_notes_def)
next
  assume "message_text upd \<noteq> None"
  then show "stats_command upd None clock' d =
          Inr (stats_text (length (notes_table d))
                (card {u. \<exists>n\<in>set (notes_table d). telegram_user_id n = Some u}) clock')"
    by (auto simp: stats_command_def get_db_def count_users_card count_notes_def)
next
  assume hyp: "sqlite_int_opt (nc_telegram_user_id b1) \<and> sqlite_int_opt (nc_telegram_user_id b2)
        \<and> sqlite_int_opt (nc_telegram_user_id b3) \<and> (k = 1 \<or> k = 2 \<or> k = 3)"
  then have k: "k = 1 \<or> k = 2 \<or> k = 3" by simp
  from hyp have three: "run secret
      [CreateNote b1 None t1 r1, CreateNote b2 None t2 r2, CreateNote b3 None t3 r3] (init_db None)
   = \<lparr>notes_table =
       [\<lparr>id_col = 1, question = nc_question b1, created_at = t1, color = get_random_color r1,
         telegram_user_id = nc_telegram_user_id b1, telegram_username = nc_telegram_username b1\<rparr>,
        \<lparr>id_col = 2, question = nc_question b2, created_at = t2, color = get_random_color r2,
         telegram_user_id = nc_telegram_user_id b2, telegram_username = nc_telegram_username b2\<rparr>,
        \<lparr>id_col = 3, question = nc_question b3, created_at = t3, color = get_random_color r3,
         telegram_user_id = nc_telegram_user_id b3, telegram_username = nc_telegram_username b3\<rparr>],
      sqlite_sequence = 3\<rparr>"
    by (simp add: three_created)
  have "run secret
          [CreateNote b1 None t1 r1, CreateNote b2 None t2 r2, CreateNote b3 None t3 r3,
           DeleteNote k (Some secret) None] (init_db None)
        = snd (delete_note secret k (Some secret) None
            (run secret [CreateNote b1 None t1 r1, CreateNote b2 None t2 r2, CreateNote b3 None t3 r3]
              (init_db None)))"
    by (simp add: run_def)
  with k show "count_notes (run secret
          [CreateNote b1 None t1 r1, CreateNote b2 None t2 r2, CreateNote b3 None t3 r3,
           DeleteNote k (Some secret) None] (init_db None)) = 2"
    unfolding three
    by (auto simp: delete_note_def get_db_def select_by_id_def delete_by_id_def count_notes_def
        sqlite_int_def)
next
  assume "sqlite_int uid"
  then have "run secret
          [CreateNote \<lparr>nc_question = q1, nc_telegram_user_id = Some uid, nc_telegram_username = n1\<rparr> None t1 r1,
           CreateNote \<lparr>nc_question = q2, nc_telegram_user_id = Some uid, nc_telegram_username = n2\<rparr> None t2 r2,
           CreateNote \<lparr>nc_question = q3, nc_telegram_user_id = None, nc_telegram_username = n3\<rparr> None t3 r3]
          (init_db None)
     = \<lparr>notes_table =
       [\<lparr>id_col = 1, question = q1, created_at = t1, color = get_random_color r1,
         telegram_user_id = Some uid, telegram_username = n1\<rparr>,
        \<lparr>id_col = 2, question = q2, created_at = t2, color = get_random_color r2,
         telegram_user_id = Some uid, telegram_username = n2\<rparr>,
        \<lparr>id_col = 3, question = q3, created_at = t3, color = get_random_color r3,
         telegram_user_id = None, telegram_username = n3\<rparr>],
      sqlite_sequence = 3\<rparr>"
    by (simp add: three_created sqlite_int_opt_def)
  then show "count_users (run secret
          [CreateNote \<lparr>nc_question = q1, nc_telegram_user_id = Some uid, nc_telegram_username = n1\<rparr> None t1 r1,
           CreateNote \<lparr>nc_question = q2, nc_telegram_user_id = Some uid, nc_telegram_username = n2\<rparr> None t2 r2,
           CreateNote \<lparr>nc_question = q3, nc_telegram_user_id = None, nc_telegram_username = n3\<rparr> None t3 r3]
          (init_db None)) = 1"
    by (simp add: count_users_def)
qed

theorem stats_counts_witness:
  "count_notes (run ''12345''
      [CreateNote \<lparr>nc_question = ''a'', nc_telegram_user_id = Some 7, nc_telegram_username = Some ''x''\<rparr> None 10 0,
       CreateNote \<lparr>nc_question = ''b'', nc_telegram_user_id = Some 7, nc_telegram_username = Some ''x''\<rparr> None 11 1,
       CreateNote \<lparr>nc_question = ''c'', nc_telegram_user_id = None, nc_telegram_username = None\<rparr> None 12 2,
       DeleteNote 2 (Some ''12345'') None] (init_db None)) = 2
   \<and> count_users (run ''12345''
      [CreateNote \<lparr>nc_question = ''a'', nc_telegram_user_id = Some 7, nc_telegram_username = Some ''x''\<rparr> None 10 0,
       CreateNote \<lparr>nc_question = ''b'', nc_telegram_user_id = Some 7, nc_telegram_username = Some ''x''\<rparr> None 11 1,
       CreateNote \<lparr>nc_question = ''c'', nc_telegram_user_id = None, nc_telegram_username = None\<rparr> None 12 2]
      (init_db None)) = 1
   \<and> stats_command \<lparr>message_text = Some ''/stats'', effective_user = None\<rparr> None ''now''
        (init_db None) = Inr (stats_text 0 0 ''now'')"
  using stats_counts[where k = 2 and secret = "''12345''" and d = "init_db None" and uid = 7
      and upd = "\<lparr>message_text = Some ''/stats'', effective_user = None\<rparr>"
      and ?b1.0 = "\<lparr>nc_question = ''a'', nc_telegram_user_id = Some 7, nc_telegram_username = Some ''x''\<rparr>"
      and ?b2.0 = "\<lparr>nc_question = ''b'', nc_telegram_user_id = Some 7, nc_telegram_username = Some ''x''\<rparr>"
      and ?b3.0 = "\<lparr>nc_question = ''c'', nc_telegram_user_id = None, nc_telegram_username = None\<rparr>"]
  by (simp add: init_db_def sqlite_int_opt_def sqlite_int_def)

section \<open>Listing notes\<close>

text \<open>
  C4, as stated, fails: two notes created within the same second carry the same
  \<open>created_at\<close>, and the listing returns them in the order of their insertion, not in
  the reverse order.
\<close>

theorem get_notes_same_second_counterexample:
  "get_notes ''12345'' (Some ''12345'') None (run ''12345''
      (inserts [(\<lparr>nc_question = ''a'', nc_telegram_user_id = None, nc_telegram_username = None\<rparr>, 100, 0),
                (\<lparr>nc_question = ''b'', nc_telegram_user_id = None, nc_telegram_username = None\<rparr>, 100, 0)])
      (init_db None))
    = Inr [\<lparr>id_col = 1, question = ''a'', created_at = 100, color = ''color-yellow'',
            telegram_user_id = None, telegram_username = None\<rparr>,
           \<lparr>id_col = 2, question = ''b'', created_at = 100, color = ''color-yellow'',
            telegram_user_id = None, telegram_username = None\<rparr>]
   \<and> get_notes ''12345'' (Some ''12345'') None (run ''12345''
      (inserts [(\<lparr>nc_question = ''a'', nc_telegram_user_id = None, nc_telegram_username = None\<rparr>, 100, 0),
                (\<lparr>nc_question = ''b'', nc_telegram_user_id = None, nc_telegram_username = None\<rparr>, 100, 0)])
      (init_db None))
    \<noteq> Inr (rev (notes_table (run ''12345''
      (inserts [(\<lparr>nc_question = ''a'', nc_telegram_user_id = None, nc_telegram_username = None\<rparr>, 100, 0),
                (\<lparr>nc_question = ''b'', nc_telegram_user_id = None, nc_telegram_username = None\<rparr>, 100, 0)])
      (init_db None))))"
  by (simp add: get_notes_def get_db_def select_ordered_def inserts_def run_def create_note_ok
      init_db_def next_rowid_def get_random_color_def colors_def sqlite_int_opt_def)

text \<open>
  C4, amended. With the right password and no storage fault, the listing returns all
  notes of the table, sorted by \<open>created_at\<close> descending, notes with the same
  \<open>created_at\<close> in the order of the table. After N notes are created in the empty table
  (N create requests whose user ids can be bound, so that each inserts its note) it
  returns exactly N records, and when their timestamps are strictly increasing, it
  returns them in reverse insertion order.
\<close>

theorem get_notes_order:
  "get_notes secret (Some secret) None d = Inr (select_ordered d)
   \<and> sorted_wrt (\<lambda>a b. created_at b \<le> created_at a) (select_ordered d)
   \<and> mset (select_ordered d) = mset (notes_table d)
   \<and> filter (\<lambda>n. created_at n = t) (select_ordered d)
       = filter (\<lambda>n. created_at n = t) (notes_table d)
   \<and> (list_all bindable reqs \<longrightarrow>
        length (select_ordered (run secret (inserts reqs) (init_db None))) = length reqs
        \<and> (sorted_wrt (<) (map (fst \<circ> snd) reqs) \<longrightarrow>
             select_ordered (run secret (inserts reqs) (init_db None))
               = rev (notes_table (run secret (inserts reqs) (init_db None)))
             \<and> map question (select_ordered (run secret (inserts reqs) (init_db None)))
               = rev (map (nc_question \<circ> fst) reqs)))"
proof (intro conjI impI)
  let ?d = "run secret (inserts reqs) (init_db None)"
  show "get_notes secret (Some secret) None d = Inr (select_ordered d)"
    by (simp add: get_notes_def get_db_def)
  show "sorted_wrt (\<lambda>a b. created_at b \<le> created_at a) (select_ordered d)"
    by (rule select_ordered_sorted)
  show "mset (select_ordered d) = mset (notes_table d)"
    by (simp add: select_ordered_def)
  show "filter (\<lambda>n. created_at n = t) (select_ordered d)
       = filter (\<lambda>n. created_at n = t) (notes_table d)"
    by (rule select_ordered_ties)
  assume ok: "list_all bindable reqs"
  have "length (map created_at (notes_table ?d)) = length reqs"
    unfolding inserts_created_at[OF ok] by (simp add: init_db_def)
  then show "length (select_ordered ?d) = length reqs"
    by (simp add: select_ordered_def)
  assume "sorted_wrt (<) (map (fst \<circ> snd) reqs)"
  then have "sorted_wrt (<) (map created_at (notes_table ?d))"
    unfolding inserts_created_at[OF ok] by (simp add: init_db_def)
  then show *: "select_ordered ?d = rev (notes_table ?d)"
    unfolding select_ordered_def by (rule sort_desc_increasing)
  show "map question (select_ordered ?d) = rev (map (nc_question \<circ> fst) reqs)"
    unfolding * rev_map[symmetric] inserts_question[OF ok] by (simp add: init_db_def)
qed

theorem get_notes_order_witness:
  "map question (select_ordered (run ''12345''
      (inserts [(\<lparr>nc_question = ''a'', nc_telegram_user_id = None, nc_telegram_username = None\<rparr>, 100, 0),
                (\<lparr>nc_question = ''b'', nc_telegram_user_id = None, nc_telegram_username = None\<rparr>, 101, 0)])
      (init_db None))) = [''b'', ''a'']"
proof -
  let ?reqs = "[(\<lparr>nc_question = ''a'', nc_telegram_user_id = None, nc_telegram_username = None\<rparr>, 100::int, 0::nat),
        (\<lparr>nc_question = ''b'', nc_telegram_user_id = None, nc_telegram_username = None\<rparr>, 101, 0)]"
  have inc: "sorted_wrt (<) (map (fst \<circ> snd) ?reqs)" by simp
  have ok: "list_all bindable ?reqs" by (simp add: bindable_def sqlite_int_opt_def)
  from get_notes_order[of "''12345''" "init_db None" 0 ?reqs] inc ok
  have "map question (select_ordered (run ''12345'' (inserts ?reqs) (init_db None)))
          = rev (map (nc_question \<circ> fst) ?reqs)"
    by blast
  then show ?thesis by simp
qed

end
